theory Spec2Isabelle
  imports Complex_Main
begin

section \<open>Data model\<close>

text \<open>
  The views of \<^verbatim>\<open>listings/views.py\<close> work on four tables (Listing, ListingImage, Booking,
  Review) and on the user of the request. A user row is identified by its primary key;
  \<^verbatim>\<open>request.user\<close> is either such a row or Django's \<^verbatim>\<open>AnonymousUser\<close>.
\<close>

datatype auth_user = AnonymousUser | User nat

fun is_authenticated :: "auth_user \<Rightarrow> bool" where
  "is_authenticated AnonymousUser = False"
| "is_authenticated (User u) = True"

record listing =
  listing_id :: nat
  owner :: nat
  title :: string
  description :: string
  location :: string
  listing_type :: string
  price_per_night :: rat
  max_guests :: int
  is_active :: bool

record booking =
  booking_id :: nat
  booking_listing :: nat
  guest :: nat
  status :: string

record review =
  review_id :: nat
  review_listing :: nat
  reviewer :: nat
  rating :: int
  comment :: string

record database =
  listings :: "listing list"
  bookings :: "booking list"
  reviews :: "review list"

text \<open>
  A request carries the user, the query parameters of the URL and the parsed body.
  \<^verbatim>\<open>query_params.get(k)\<close> and \<^verbatim>\<open>data.get(k)\<close> return \<^verbatim>\<open>None\<close> for a missing key.
\<close>

record request =
  user :: auth_user
  query_params :: "string \<rightharpoonup> string"
  data :: "string \<rightharpoonup> string"

datatype http_method = GET | HEAD | OPTIONS | POST | PUT | PATCH | DELETE

text \<open>
  Exceptions that leave a view. \<open>NotPermitted\<close> is what \<^verbatim>\<open>APIView.permission_denied\<close>
  raises when a permission class refuses the request (NotAuthenticated or PermissionDenied,
  depending on the configured authenticators); \<open>Http404\<close> is the failed lookup of
  \<^verbatim>\<open>get_object\<close>; \<open>BadLookupValue\<close> is the exception of a field that cannot convert
  the value of a lookup; \<open>InvalidPayload\<close> is \<^verbatim>\<open>is_valid(raise_exception=True)\<close>;
  \<open>RelatedObjectDoesNotExist\<close> is the read of a foreign key whose row is gone;
  \<open>ValueError\<close> is the assignment of \<^verbatim>\<open>AnonymousUser\<close> to a foreign key to the user table.
\<close>

datatype error =
    NotPermitted
  | Http404
  | MultipleObjectsReturned
  | BadLookupValue
  | InvalidPayload
  | RelatedObjectDoesNotExist
  | ValueError

datatype payload =
    NoContent
  | ErrorBody string
  | ListingBody listing
  | ListingsBody "listing list"
  | BookingBody booking
  | BookingsBody "booking list"
  | ReviewBody review
  | ReviewsBody "review list"

datatype response = Response (body: payload) (status_code: nat)

definition HTTP_200_OK :: nat where "HTTP_200_OK = 200"
definition HTTP_201_CREATED :: nat where "HTTP_201_CREATED = 201"
definition HTTP_204_NO_CONTENT :: nat where "HTTP_204_NO_CONTENT = 204"
definition HTTP_400_BAD_REQUEST :: nat where "HTTP_400_BAD_REQUEST = 400"
definition HTTP_403_FORBIDDEN :: nat where "HTTP_403_FORBIDDEN = 403"

section \<open>Query helpers\<close>

text \<open>
  \<^verbatim>\<open>__icontains\<close>: the value occurs in the field as a contiguous substring, letters
  compared without case (ASCII letters, as the LIKE of the database does).
\<close>

definition lower_char :: "char \<Rightarrow> char" where
  "lower_char c =
     (case map_of (zip ''ABCDEFGHIJKLMNOPQRSTUVWXYZ'' ''abcdefghijklmnopqrstuvwxyz'') c of
        None \<Rightarrow> c | Some d \<Rightarrow> d)"

definition lower :: "string \<Rightarrow> string" where
  "lower s = map lower_char s"

fun startswith :: "string \<Rightarrow> string \<Rightarrow> bool" where
  "startswith s [] = True"
| "startswith [] (p # ps) = False"
| "startswith (c # s) (p # ps) = (c = p \<and> startswith s ps)"

fun contains :: "string \<Rightarrow> string \<Rightarrow> bool" where
  "contains [] p = (p = [])"
| "contains (c # s) p = (startswith (c # s) p \<or> contains s p)"

definition icontains :: "string \<Rightarrow> string \<Rightarrow> bool" where
  "icontains field v = contains (lower field) (lower v)"

text \<open>
  The pattern of \<^verbatim>\<open>get_queryset\<close>:
  \<^verbatim>\<open>v = params.get(k)\<close>, then \<^verbatim>\<open>if v: queryset = queryset.filter(...)\<close>.
  A missing key gives \<^verbatim>\<open>None\<close> and an empty string is falsy: in both cases the queryset
  is left as it is. Building the lookup can raise (a value the field cannot convert).
\<close>

fun filter_if :: "string option \<Rightarrow> (string \<Rightarrow> error + ('a \<Rightarrow> bool)) \<Rightarrow> 'a list \<Rightarrow> error + 'a list" where
  "filter_if None mk queryset = Inr queryset"
| "filter_if (Some v) mk queryset =
     (if v = [] then Inr queryset
      else case mk v of Inl e \<Rightarrow> Inl e | Inr P \<Rightarrow> Inr (filter P queryset))"

definition and_then :: "error + 'a \<Rightarrow> ('a \<Rightarrow> error + 'b) \<Rightarrow> error + 'b" where
  "and_then r f = (case r of Inl e \<Rightarrow> Inl e | Inr x \<Rightarrow> f x)"

text \<open>
  The conversion of a lookup value by the model field (\<^verbatim>\<open>DecimalField\<close> for
  \<^verbatim>\<open>price_per_night\<close>, an integer field for \<^verbatim>\<open>max_guests\<close> and for keys) is declared in
  \<^verbatim>\<open>models.py\<close>, which is not part of the sources: the two conversions are parameters.
\<close>

definition lookup :: "'v option \<Rightarrow> ('v \<Rightarrow> 'a \<Rightarrow> bool) \<Rightarrow> error + ('a \<Rightarrow> bool)" where
  "lookup converted P = (case converted of None \<Rightarrow> Inl BadLookupValue | Some x \<Rightarrow> Inr (P x))"

section \<open>The framework around the views\<close>

text \<open>
  The view sets inherit from \<^verbatim>\<open>rest_framework.viewsets.ModelViewSet\<close>. What a request does
  is fixed by that class together with the overrides of \<^verbatim>\<open>views.py\<close>:
  \<^item> \<^verbatim>\<open>APIView.dispatch\<close> runs \<^verbatim>\<open>initial\<close>, which checks every class of
    \<^verbatim>\<open>permission_classes\<close> and raises when one refuses, and only then calls the handler;
  \<^item> \<^verbatim>\<open>get_object\<close> looks the key up in \<^verbatim>\<open>get_queryset()\<close> and raises Http404
    when no row has it;
  \<^item> \<^verbatim>\<open>update\<close> and \<^verbatim>\<open>destroy\<close> call \<^verbatim>\<open>perform_update\<close> and
    \<^verbatim>\<open>perform_destroy\<close> as statements: what these hooks return is dropped.
\<close>

datatype permission_class = IsAuthenticated | IsAuthenticatedOrReadOnly

definition SAFE_METHODS :: "http_method list" where
  "SAFE_METHODS = [GET, HEAD, OPTIONS]"

fun has_permission :: "permission_class \<Rightarrow> http_method \<Rightarrow> request \<Rightarrow> bool" where
  "has_permission IsAuthenticated m req = is_authenticated (user req)"
| "has_permission IsAuthenticatedOrReadOnly m req =
     (m \<in> set SAFE_METHODS \<or> is_authenticated (user req))"

definition check_permissions :: "permission_class list \<Rightarrow> http_method \<Rightarrow> request \<Rightarrow> error + unit" where
  "check_permissions permission_classes m req =
     (if list_all (\<lambda>p. has_permission p m req) permission_classes then Inr ()
      else Inl NotPermitted)"

definition dispatch ::
  "permission_class list \<Rightarrow> http_method \<Rightarrow> request \<Rightarrow> (error + 'a) \<Rightarrow> error + 'a" where
  "dispatch permission_classes m req handler =
     and_then (check_permissions permission_classes m req) (\<lambda>_. handler)"

definition get_object_or_404 :: "('a \<Rightarrow> nat) \<Rightarrow> 'a list \<Rightarrow> nat \<Rightarrow> error + 'a" where
  "get_object_or_404 key queryset pk =
     (case filter (\<lambda>x. key x = pk) queryset of
        [] \<Rightarrow> Inl Http404
      | [x] \<Rightarrow> Inr x
      | _ \<Rightarrow> Inl MultipleObjectsReturned)"

text \<open>
  A serializer bound to an instance and holding the validated data of the request. The
  serializer classes are declared in \<^verbatim>\<open>serializers.py\<close>, which is not part of the sources:
  validation is a parameter of the views, and validated data is a set of optional field
  values; \<^verbatim>\<open>ModelSerializer.update\<close> assigns each given field and saves the row.
\<close>

record ('a, 'd) serializer =
  bound_instance :: 'a
  validated_data :: 'd

record listing_data =
  given_title :: "string option"
  given_description :: "string option"
  given_location :: "string option"
  given_listing_type :: "string option"
  given_price_per_night :: "rat option"
  given_max_guests :: "int option"
  given_is_active :: "bool option"

record review_data =
  given_rating :: "int option"
  given_comment :: "string option"

definition or_keep :: "'a option \<Rightarrow> 'a \<Rightarrow> 'a" where
  "or_keep v old = (case v of None \<Rightarrow> old | Some x \<Rightarrow> x)"

definition assign_listing :: "listing \<Rightarrow> listing_data \<Rightarrow> listing" where
  "assign_listing l d =
     l\<lparr>title := or_keep (given_title d) (title l),
       description := or_keep (given_description d) (description l),
       location := or_keep (given_location d) (location l),
       listing_type := or_keep (given_listing_type d) (listing_type l),
       price_per_night := or_keep (given_price_per_night d) (price_per_night l),
       max_guests := or_keep (given_max_guests d) (max_guests l),
       is_active := or_keep (given_is_active d) (is_active l)\<rparr>"

definition assign_review :: "review \<Rightarrow> review_data \<Rightarrow> review" where
  "assign_review r d =
     r\<lparr>rating := or_keep (given_rating d) (rating r),
       comment := or_keep (given_comment d) (comment r)\<rparr>"

text \<open>\<^verbatim>\<open>save()\<close> of a stored row writes it over the row with its key; \<^verbatim>\<open>delete()\<close>
  removes the row, and with it the rows that reference it (the \<^verbatim>\<open>on_delete\<close> of the
  foreign keys is declared in \<^verbatim>\<open>models.py\<close>; cascading is assumed here).\<close>

definition save_listing :: "listing \<Rightarrow> database \<Rightarrow> database" where
  "save_listing l db =
     db\<lparr>listings := map (\<lambda>x. if listing_id x = listing_id l then l else x) (listings db)\<rparr>"

definition delete_listing :: "listing \<Rightarrow> database \<Rightarrow> database" where
  "delete_listing l db =
     db\<lparr>listings := filter (\<lambda>x. listing_id x \<noteq> listing_id l) (listings db),
        bookings := filter (\<lambda>b. booking_listing b \<noteq> listing_id l) (bookings db),
        reviews := filter (\<lambda>r. review_listing r \<noteq> listing_id l) (reviews db)\<rparr>"

definition save_booking :: "booking \<Rightarrow> database \<Rightarrow> database" where
  "save_booking b db =
     db\<lparr>bookings := map (\<lambda>x. if booking_id x = booking_id b then b else x) (bookings db)\<rparr>"

definition save_review :: "review \<Rightarrow> database \<Rightarrow> database" where
  "save_review r db =
     db\<lparr>reviews := map (\<lambda>x. if review_id x = review_id r then r else x) (reviews db)\<rparr>"

definition delete_review :: "review \<Rightarrow> database \<Rightarrow> database" where
  "delete_review r db = db\<lparr>reviews := filter (\<lambda>x. review_id x \<noteq> review_id r) (reviews db)\<rparr>"

section \<open>ListingViewSet\<close>

definition ListingViewSet_get_queryset ::
  "(string \<Rightarrow> rat option) \<Rightarrow> (string \<Rightarrow> int option) \<Rightarrow> request \<Rightarrow> database \<Rightarrow> error + listing list" where
  "ListingViewSet_get_queryset to_decimal to_int req db =
     and_then (filter_if (query_params req ''type'')
                 (\<lambda>v. Inr (\<lambda>l. listing_type l = v)) (filter is_active (listings db))) (\<lambda>queryset.
     and_then (filter_if (query_params req ''location'')
                 (\<lambda>v. Inr (\<lambda>l. icontains (location l) v)) queryset) (\<lambda>queryset.
     and_then (filter_if (query_params req ''min_price'')
                 (\<lambda>v. lookup (to_decimal v) (\<lambda>p l. p \<le> price_per_night l)) queryset) (\<lambda>queryset.
     and_then (filter_if (query_params req ''max_price'')
                 (\<lambda>v. lookup (to_decimal v) (\<lambda>p l. price_per_night l \<le> p)) queryset) (\<lambda>queryset.
     and_then (filter_if (query_params req ''guests'')
                 (\<lambda>v. lookup (to_int v) (\<lambda>g l. g \<le> max_guests l)) queryset) (\<lambda>queryset.
     filter_if (query_params req ''search'')
                 (\<lambda>v. Inr (\<lambda>l. icontains (title l) v \<or> icontains (description l) v
                                 \<or> icontains (location l) v)) queryset)))))"

definition ListingViewSet_permission_classes :: "permission_class list" where
  "ListingViewSet_permission_classes = [IsAuthenticatedOrReadOnly]"

definition ListingViewSet_get_object ::
  "(string \<Rightarrow> rat option) \<Rightarrow> (string \<Rightarrow> int option) \<Rightarrow> request \<Rightarrow> nat \<Rightarrow> database \<Rightarrow> error + listing" where
  "ListingViewSet_get_object to_decimal to_int req pk db =
     and_then (ListingViewSet_get_queryset to_decimal to_int req db)
       (\<lambda>queryset. get_object_or_404 listing_id queryset pk)"

text \<open>
  \<^verbatim>\<open>perform_update\<close> and \<^verbatim>\<open>perform_destroy\<close> return a \<^verbatim>\<open>Response\<close> object when the user
  is not the owner (they do not raise), and \<^verbatim>\<open>None\<close> after saving or deleting. The result
  is the returned value, the instance of the serializer afterwards, and the database.
\<close>

definition ListingViewSet_perform_update ::
  "request \<Rightarrow> (listing, listing_data) serializer \<Rightarrow> database \<Rightarrow> response option \<times> listing \<times> database" where
  "ListingViewSet_perform_update req serializer db =
     (if User (owner (bound_instance serializer)) \<noteq> user req
      then (Some (Response (ErrorBody ''You can only update your own listings'') HTTP_403_FORBIDDEN),
            bound_instance serializer, db)
      else (let saved = assign_listing (bound_instance serializer) (validated_data serializer)
            in (None, saved, save_listing saved db)))"

definition ListingViewSet_perform_destroy ::
  "request \<Rightarrow> listing \<Rightarrow> database \<Rightarrow> response option \<times> database" where
  "ListingViewSet_perform_destroy req inst db =
     (if User (owner inst) \<noteq> user req
      then (Some (Response (ErrorBody ''You can only delete your own listings'') HTTP_403_FORBIDDEN), db)
      else (None, delete_listing inst db))"

text \<open>The inherited handlers, with the hooks above in place.\<close>

definition ListingViewSet_list ::
  "(string \<Rightarrow> rat option) \<Rightarrow> (string \<Rightarrow> int option) \<Rightarrow> request \<Rightarrow> database \<Rightarrow> error + response \<times> database" where
  "ListingViewSet_list to_decimal to_int req db =
     and_then (ListingViewSet_get_queryset to_decimal to_int req db)
       (\<lambda>queryset. Inr (Response (ListingsBody queryset) HTTP_200_OK, db))"

definition ListingViewSet_retrieve ::
  "(string \<Rightarrow> rat option) \<Rightarrow> (string \<Rightarrow> int option) \<Rightarrow> request \<Rightarrow> nat \<Rightarrow> database \<Rightarrow> error + response \<times> database" where
  "ListingViewSet_retrieve to_decimal to_int req pk db =
     and_then (ListingViewSet_get_object to_decimal to_int req pk db)
       (\<lambda>inst. Inr (Response (ListingBody inst) HTTP_200_OK, db))"

definition ListingViewSet_update ::
  "(string \<Rightarrow> rat option) \<Rightarrow> (string \<Rightarrow> int option) \<Rightarrow> ((string \<rightharpoonup> string) \<Rightarrow> listing_data option)
     \<Rightarrow> request \<Rightarrow> nat \<Rightarrow> database \<Rightarrow> error + response \<times> database" where
  "ListingViewSet_update to_decimal to_int validate req pk db =
     and_then (ListingViewSet_get_object to_decimal to_int req pk db) (\<lambda>inst.
       case validate (data req) of
         None \<Rightarrow> Inl InvalidPayload
       | Some vd \<Rightarrow>
           (case ListingViewSet_perform_update req
                   \<lparr>bound_instance = inst, validated_data = vd\<rparr> db of
              (_, inst', db') \<Rightarrow> Inr (Response (ListingBody inst') HTTP_200_OK, db')))"

definition ListingViewSet_destroy ::
  "(string \<Rightarrow> rat option) \<Rightarrow> (string \<Rightarrow> int option) \<Rightarrow> request \<Rightarrow> nat \<Rightarrow> database \<Rightarrow> error + response \<times> database" where
  "ListingViewSet_destroy to_decimal to_int req pk db =
     and_then (ListingViewSet_get_object to_decimal to_int req pk db) (\<lambda>inst.
       case ListingViewSet_perform_destroy req inst db of
         (_, db') \<Rightarrow> Inr (Response NoContent HTTP_204_NO_CONTENT, db'))"

definition ListingViewSet_reviews ::
  "(string \<Rightarrow> rat option) \<Rightarrow> (string \<Rightarrow> int option) \<Rightarrow> request \<Rightarrow> nat \<Rightarrow> database \<Rightarrow> error + response \<times> database" where
  "ListingViewSet_reviews to_decimal to_int req pk db =
     and_then (ListingViewSet_get_object to_decimal to_int req pk db) (\<lambda>listing.
       Inr (Response (ReviewsBody (filter (\<lambda>r. review_listing r = listing_id listing) (reviews db)))
              HTTP_200_OK, db))"

definition ListingViewSet_bookings ::
  "(string \<Rightarrow> rat option) \<Rightarrow> (string \<Rightarrow> int option) \<Rightarrow> request \<Rightarrow> nat \<Rightarrow> database \<Rightarrow> error + response \<times> database" where
  "ListingViewSet_bookings to_decimal to_int req pk db =
     and_then (ListingViewSet_get_object to_decimal to_int req pk db) (\<lambda>listing.
       if user req \<noteq> User (owner listing)
       then Inr (Response (ErrorBody ''Permission denied'') HTTP_403_FORBIDDEN, db)
       else Inr (Response (BookingsBody (filter (\<lambda>b. booking_listing b = listing_id listing) (bookings db)))
                   HTTP_200_OK, db))"

text \<open>
  The routes of the view set that address one listing by its key, with the method the
  router binds each to, behind the permission check of \<^verbatim>\<open>dispatch\<close>.
\<close>

datatype listing_detail_action = Retrieve | Update | PartialUpdate | Destroy | Reviews | Bookings

fun listing_detail_method :: "listing_detail_action \<Rightarrow> http_method" where
  "listing_detail_method Retrieve = GET"
| "listing_detail_method Update = PUT"
| "listing_detail_method PartialUpdate = PATCH"
| "listing_detail_method Destroy = DELETE"
| "listing_detail_method Reviews = GET"
| "listing_detail_method Bookings = GET"

definition ListingViewSet_detail ::
  "(string \<Rightarrow> rat option) \<Rightarrow> (string \<Rightarrow> int option) \<Rightarrow> ((string \<rightharpoonup> string) \<Rightarrow> listing_data option)
     \<Rightarrow> listing_detail_action \<Rightarrow> request \<Rightarrow> nat \<Rightarrow> database \<Rightarrow> error + response \<times> database" where
  "ListingViewSet_detail to_decimal to_int validate a req pk db =
     dispatch ListingViewSet_permission_classes (listing_detail_method a) req
       (case a of
          Retrieve \<Rightarrow> ListingViewSet_retrieve to_decimal to_int req pk db
        | Update \<Rightarrow> ListingViewSet_update to_decimal to_int validate req pk db
        | PartialUpdate \<Rightarrow> ListingViewSet_update to_decimal to_int validate req pk db
        | Destroy \<Rightarrow> ListingViewSet_destroy to_decimal to_int req pk db
        | Reviews \<Rightarrow> ListingViewSet_reviews to_decimal to_int req pk db
        | Bookings \<Rightarrow> ListingViewSet_bookings to_decimal to_int req pk db)"

definition ListingViewSet_GET_collection ::
  "(string \<Rightarrow> rat option) \<Rightarrow> (string \<Rightarrow> int option) \<Rightarrow> request \<Rightarrow> database \<Rightarrow> error + response \<times> database" where
  "ListingViewSet_GET_collection to_decimal to_int req db =
     dispatch ListingViewSet_permission_classes GET req (ListingViewSet_list to_decimal to_int req db)"

section \<open>BookingViewSet\<close>

definition BookingViewSet_permission_classes :: "permission_class list" where
  "BookingViewSet_permission_classes = [IsAuthenticated]"

text \<open>
  \<^verbatim>\<open>serializer.save(guest=self.request.user)\<close>: the keyword arguments of \<^verbatim>\<open>save\<close> are
  merged over the validated data, then the row is created under a fresh key. The
  validated data is given as the row it describes, whatever guest the payload named.
\<close>

definition fresh_booking_id :: "database \<Rightarrow> nat" where
  "fresh_booking_id db = Suc (fold max (map booking_id (bookings db)) 0)"

definition BookingViewSet_perform_create ::
  "request \<Rightarrow> booking \<Rightarrow> database \<Rightarrow> error + booking \<times> database" where
  "BookingViewSet_perform_create req validated db =
     (case user req of
        AnonymousUser \<Rightarrow> Inl ValueError
      | User u \<Rightarrow>
          (let created = validated\<lparr>guest := u, booking_id := fresh_booking_id db\<rparr>
           in Inr (created, db\<lparr>bookings := bookings db @ [created]\<rparr>)))"

definition BookingViewSet_create ::
  "((string \<rightharpoonup> string) \<Rightarrow> booking option) \<Rightarrow> request \<Rightarrow> database \<Rightarrow> error + response \<times> database" where
  "BookingViewSet_create validate req db =
     (case validate (data req) of
        None \<Rightarrow> Inl InvalidPayload
      | Some validated \<Rightarrow>
          and_then (BookingViewSet_perform_create req validated db)
            (\<lambda>(created, db'). Inr (Response (BookingBody created) HTTP_201_CREATED, db')))"

definition BookingViewSet_POST_collection ::
  "((string \<rightharpoonup> string) \<Rightarrow> booking option) \<Rightarrow> request \<Rightarrow> database \<Rightarrow> error + response \<times> database" where
  "BookingViewSet_POST_collection validate req db =
     dispatch BookingViewSet_permission_classes POST req (BookingViewSet_create validate req db)"

text \<open>
  \<open>related_listing\<close> is \<^verbatim>\<open>booking.listing\<close>, the row that the foreign key names.
  \<^verbatim>\<open>Q(guest=user) | Q(listing__owner=user)\<close> joins each booking with the listing it
  references. \<^verbatim>\<open>swagger_fake_view\<close> is the attribute that the schema generator sets on
  the view; on a request it is absent.
\<close>

definition related_listing :: "database \<Rightarrow> booking \<Rightarrow> listing option" where
  "related_listing db b = find (\<lambda>l. listing_id l = booking_listing b) (listings db)"

definition BookingViewSet_get_queryset :: "bool \<Rightarrow> request \<Rightarrow> database \<Rightarrow> booking list" where
  "BookingViewSet_get_queryset swagger_fake_view req db =
     (if swagger_fake_view then []
      else case user req of
        AnonymousUser \<Rightarrow> []
      | User u \<Rightarrow>
          remdups (filter
            (\<lambda>b. case related_listing db b of
                   None \<Rightarrow> False
                 | Some l \<Rightarrow> guest b = u \<or> owner l = u)
            (bookings db)))"

definition BookingViewSet_list :: "request \<Rightarrow> database \<Rightarrow> error + response \<times> database" where
  "BookingViewSet_list req db =
     Inr (Response (BookingsBody (BookingViewSet_get_queryset False req db)) HTTP_200_OK, db)"

definition BookingViewSet_GET_collection :: "request \<Rightarrow> database \<Rightarrow> error + response \<times> database" where
  "BookingViewSet_GET_collection req db =
     dispatch BookingViewSet_permission_classes GET req (BookingViewSet_list req db)"

definition BookingViewSet_get_object :: "request \<Rightarrow> nat \<Rightarrow> database \<Rightarrow> error + booking" where
  "BookingViewSet_get_object req pk db =
     get_object_or_404 booking_id (BookingViewSet_get_queryset False req db) pk"

definition valid_statuses :: "string list" where
  "valid_statuses = [''pending'', ''confirmed'', ''cancelled'', ''completed'']"

definition BookingViewSet_update_status :: "request \<Rightarrow> nat \<Rightarrow> database \<Rightarrow> error + response \<times> database" where
  "BookingViewSet_update_status req pk db =
     and_then (BookingViewSet_get_object req pk db) (\<lambda>booking.
       case related_listing db booking of
         None \<Rightarrow> Inl RelatedObjectDoesNotExist
       | Some listing \<Rightarrow>
           if user req \<noteq> User (owner listing)
           then Inr (Response (ErrorBody ''Only listing owner can update booking status'')
                       HTTP_403_FORBIDDEN, db)
           else (case data req ''status'' of
                   None \<Rightarrow> Inr (Response (ErrorBody ''Invalid status'') HTTP_400_BAD_REQUEST, db)
                 | Some new_status \<Rightarrow>
                     if new_status \<notin> set valid_statuses
                     then Inr (Response (ErrorBody ''Invalid status'') HTTP_400_BAD_REQUEST, db)
                     else (let saved = booking\<lparr>status := new_status\<rparr>
                           in Inr (Response (BookingBody saved) HTTP_200_OK, save_booking saved db))))"

definition BookingViewSet_PATCH_update_status ::
  "request \<Rightarrow> nat \<Rightarrow> database \<Rightarrow> error + response \<times> database" where
  "BookingViewSet_PATCH_update_status req pk db =
     dispatch BookingViewSet_permission_classes PATCH req (BookingViewSet_update_status req pk db)"

section \<open>ReviewViewSet\<close>

definition ReviewViewSet_permission_classes :: "permission_class list" where
  "ReviewViewSet_permission_classes = [IsAuthenticated]"

definition ReviewViewSet_get_queryset ::
  "(string \<Rightarrow> int option) \<Rightarrow> request \<Rightarrow> database \<Rightarrow> error + review list" where
  "ReviewViewSet_get_queryset to_int req db =
     filter_if (query_params req ''listing'')
       (\<lambda>v. lookup (to_int v) (\<lambda>i r. int (review_listing r) = i)) (reviews db)"

definition ReviewViewSet_get_object ::
  "(string \<Rightarrow> int option) \<Rightarrow> request \<Rightarrow> nat \<Rightarrow> database \<Rightarrow> error + review" where
  "ReviewViewSet_get_object to_int req pk db =
     and_then (ReviewViewSet_get_queryset to_int req db)
       (\<lambda>queryset. get_object_or_404 review_id queryset pk)"

definition ReviewViewSet_perform_update ::
  "request \<Rightarrow> (review, review_data) serializer \<Rightarrow> database \<Rightarrow> response option \<times> review \<times> database" where
  "ReviewViewSet_perform_update req serializer db =
     (if User (reviewer (bound_instance serializer)) \<noteq> user req
      then (Some (Response (ErrorBody ''You can only update your own reviews'') HTTP_403_FORBIDDEN),
            bound_instance serializer, db)
      else (let saved = assign_review (bound_instance serializer) (validated_data serializer)
            in (None, saved, save_review saved db)))"

definition ReviewViewSet_perform_destroy ::
  "request \<Rightarrow> review \<Rightarrow> database \<Rightarrow> response option \<times> database" where
  "ReviewViewSet_perform_destroy req inst db =
     (if User (reviewer inst) \<noteq> user req
      then (Some (Response (ErrorBody ''You can only delete your own reviews'') HTTP_403_FORBIDDEN), db)
      else (None, delete_review inst db))"

definition ReviewViewSet_list ::
  "(string \<Rightarrow> int option) \<Rightarrow> request \<Rightarrow> database \<Rightarrow> error + response \<times> database" where
  "ReviewViewSet_list to_int req db =
     and_then (ReviewViewSet_get_queryset to_int req db)
       (\<lambda>queryset. Inr (Response (ReviewsBody queryset) HTTP_200_OK, db))"

definition ReviewViewSet_retrieve ::
  "(string \<Rightarrow> int option) \<Rightarrow> request \<Rightarrow> nat \<Rightarrow> database \<Rightarrow> error + response \<times> database" where
  "ReviewViewSet_retrieve to_int req pk db =
     and_then (ReviewViewSet_get_object to_int req pk db)
       (\<lambda>inst. Inr (Response (ReviewBody inst) HTTP_200_OK, db))"

definition ReviewViewSet_update ::
  "(string \<Rightarrow> int option) \<Rightarrow> ((string \<rightharpoonup> string) \<Rightarrow> review_data option)
     \<Rightarrow> request \<Rightarrow> nat \<Rightarrow> database \<Rightarrow> error + response \<times> database" where
  "ReviewViewSet_update to_int validate req pk db =
     and_then (ReviewViewSet_get_object to_int req pk db) (\<lambda>inst.
       case validate (data req) of
         None \<Rightarrow> Inl InvalidPayload
       | Some vd \<Rightarrow>
           (case ReviewViewSet_perform_update req
                   \<lparr>bound_instance = inst, validated_data = vd\<rparr> db of
              (_, inst', db') \<Rightarrow> Inr (Response (ReviewBody inst') HTTP_200_OK, db')))"

definition ReviewViewSet_destroy ::
  "(string \<Rightarrow> int option) \<Rightarrow> request \<Rightarrow> nat \<Rightarrow> database \<Rightarrow> error + response \<times> database" where
  "ReviewViewSet_destroy to_int req pk db =
     and_then (ReviewViewSet_get_object to_int req pk db) (\<lambda>inst.
       case ReviewViewSet_perform_destroy req inst db of
         (_, db') \<Rightarrow> Inr (Response NoContent HTTP_204_NO_CONTENT, db'))"

definition ReviewViewSet_GET_collection ::
  "(string \<Rightarrow> int option) \<Rightarrow> request \<Rightarrow> database \<Rightarrow> error + response \<times> database" where
  "ReviewViewSet_GET_collection to_int req db =
     dispatch ReviewViewSet_permission_classes GET req (ReviewViewSet_list to_int req db)"

definition ReviewViewSet_GET_detail ::
  "(string \<Rightarrow> int option) \<Rightarrow> request \<Rightarrow> nat \<Rightarrow> database \<Rightarrow> error + response \<times> database" where
  "ReviewViewSet_GET_detail to_int req pk db =
     dispatch ReviewViewSet_permission_classes GET req (ReviewViewSet_retrieve to_int req pk db)"

definition ReviewViewSet_PUT_detail ::
  "(string \<Rightarrow> int option) \<Rightarrow> ((string \<rightharpoonup> string) \<Rightarrow> review_data option)
     \<Rightarrow> request \<Rightarrow> nat \<Rightarrow> database \<Rightarrow> error + response \<times> database" where
  "ReviewViewSet_PUT_detail to_int validate req pk db =
     dispatch ReviewViewSet_permission_classes PUT req (ReviewViewSet_update to_int validate req pk db)"

definition ReviewViewSet_DELETE_detail ::
  "(string \<Rightarrow> int option) \<Rightarrow> request \<Rightarrow> nat \<Rightarrow> database \<Rightarrow> error + response \<times> database" where
  "ReviewViewSet_DELETE_detail to_int req pk db =
     dispatch ReviewViewSet_permission_classes DELETE req (ReviewViewSet_destroy to_int req pk db)"

section \<open>The filters of the listing query, as predicates\<close>

text \<open>
  The filter of the specification, as its words have it: a listing is returned when it is
  active and satisfies every supplied filter; a supplied parameter is one present in the
  query string.
\<close>

definition satisfies_supplied ::
  "(string \<Rightarrow> rat option) \<Rightarrow> (string \<Rightarrow> int option) \<Rightarrow> (string \<rightharpoonup> string) \<Rightarrow> listing \<Rightarrow> bool" where
  "satisfies_supplied to_decimal to_int qp l =
     (is_active l
      \<and> (case qp ''type'' of None \<Rightarrow> True | Some v \<Rightarrow> listing_type l = v)
      \<and> (case qp ''location'' of None \<Rightarrow> True | Some v \<Rightarrow> icontains (location l) v)
      \<and> (case qp ''min_price'' of None \<Rightarrow> True
          | Some v \<Rightarrow> (case to_decimal v of None \<Rightarrow> False | Some p \<Rightarrow> p \<le> price_per_night l))
      \<and> (case qp ''max_price'' of None \<Rightarrow> True
          | Some v \<Rightarrow> (case to_decimal v of None \<Rightarrow> False | Some p \<Rightarrow> price_per_night l \<le> p))
      \<and> (case qp ''guests'' of None \<Rightarrow> True
          | Some v \<Rightarrow> (case to_int v of None \<Rightarrow> False | Some g \<Rightarrow> g \<le> max_guests l))
      \<and> (case qp ''search'' of None \<Rightarrow> True
          | Some v \<Rightarrow> icontains (title l) v \<or> icontains (description l) v
                        \<or> icontains (location l) v))"

text \<open>The same filter with the guard of the code: a parameter counts when it is truthy
  (present and not the empty string).\<close>

definition satisfies_given ::
  "(string \<Rightarrow> rat option) \<Rightarrow> (string \<Rightarrow> int option) \<Rightarrow> (string \<rightharpoonup> string) \<Rightarrow> listing \<Rightarrow> bool" where
  "satisfies_given to_decimal to_int qp l =
     (is_active l
      \<and> (case qp ''type'' of None \<Rightarrow> True | Some v \<Rightarrow> v = [] \<or> listing_type l = v)
      \<and> (case qp ''location'' of None \<Rightarrow> True | Some v \<Rightarrow> v = [] \<or> icontains (location l) v)
      \<and> (case qp ''min_price'' of None \<Rightarrow> True
          | Some v \<Rightarrow> v = [] \<or> (case to_decimal v of None \<Rightarrow> False | Some p \<Rightarrow> p \<le> price_per_night l))
      \<and> (case qp ''max_price'' of None \<Rightarrow> True
          | Some v \<Rightarrow> v = [] \<or> (case to_decimal v of None \<Rightarrow> False | Some p \<Rightarrow> price_per_night l \<le> p))
      \<and> (case qp ''guests'' of None \<Rightarrow> True
          | Some v \<Rightarrow> v = [] \<or> (case to_int v of None \<Rightarrow> False | Some g \<Rightarrow> g \<le> max_guests l))
      \<and> (case qp ''search'' of None \<Rightarrow> True
          | Some v \<Rightarrow> v = [] \<or> icontains (title l) v \<or> icontains (description l) v
                        \<or> icontains (location l) v))"

text \<open>A numeric parameter is well formed when it is absent, empty or converts.\<close>

definition well_formed :: "(string \<Rightarrow> 'v option) \<Rightarrow> string option \<Rightarrow> bool" where
  "well_formed conv param = (case param of None \<Rightarrow> True | Some v \<Rightarrow> v = [] \<or> conv v \<noteq> None)"


section \<open>Example data\<close>

text \<open>
  Listing 1 is active and listing 2 is not; both belong to user 10. User 20 booked and
  reviewed listing 1. User 30 has no part in any row.
\<close>

definition austin :: listing where
  "austin = \<lparr>listing_id = 1, owner = 10, title = ''Loft'', description = ''Quiet loft'',
     location = ''Austin'', listing_type = ''apartment'', price_per_night = 100,
     max_guests = 4, is_active = True\<rparr>"

definition hidden :: listing where
  "hidden = \<lparr>listing_id = 2, owner = 10, title = ''Cabin'', description = ''Closed for winter'',
     location = ''Aspen'', listing_type = ''house'', price_per_night = 250,
     max_guests = 6, is_active = False\<rparr>"

definition stay :: booking where
  "stay = \<lparr>booking_id = 1, booking_listing = 1, guest = 20, status = ''pending''\<rparr>"

definition praise :: review where
  "praise = \<lparr>review_id = 1, review_listing = 1, reviewer = 20, rating = 5, comment = ''Great''\<rparr>"

definition store :: database where
  "store = \<lparr>listings = [austin, hidden], bookings = [stay], reviews = [praise]\<rparr>"

definition request_of :: "auth_user \<Rightarrow> (string \<times> string) list \<Rightarrow> (string \<times> string) list \<Rightarrow> request" where
  "request_of u qp d = \<lparr>user = u, query_params = map_of qp, data = map_of d\<rparr>"

text \<open>
  Conversions and validators for the examples: the field conversions know a few numerals
  and refuse every other string; the validators accept any body and take one field.
\<close>

definition decimal_of :: "string \<Rightarrow> rat option" where
  "decimal_of = map_of [(''50'', 50), (''80'', 80), (''150'', 150)]"

definition int_of :: "string \<Rightarrow> int option" where
  "int_of = map_of [(''1'', 1), (''2'', 2), (''4'', 4)]"

definition title_only :: "(string \<rightharpoonup> string) \<Rightarrow> listing_data option" where
  "title_only d = Some \<lparr>given_title = d ''title'', given_description = None, given_location = None,
     given_listing_type = None, given_price_per_night = None, given_max_guests = None,
     given_is_active = None\<rparr>"

definition comment_only :: "(string \<rightharpoonup> string) \<Rightarrow> review_data option" where
  "comment_only d = Some \<lparr>given_rating = None, given_comment = d ''comment''\<rparr>"

section \<open>Basic facts\<close>

lemma and_then_Inr: "and_then (Inr x) f = f x"
  by (simp add: and_then_def)

lemma and_then_Inl: "and_then (Inl e) f = Inl e"
  by (simp add: and_then_def)

text \<open>\<open>contains\<close> is the substring test.\<close>

lemma startswith_iff: "startswith s p \<longleftrightarrow> (\<exists>b. s = p @ b)"
  by (induction s p rule: startswith.induct) auto

lemma contains_iff: "contains s p \<longleftrightarrow> (\<exists>a b. s = a @ p @ b)"
proof (induction s)
  case Nil
  then show ?case by auto
next
  case (Cons c s)
  show ?case
  proof
    assume "contains (c # s) p"
    then consider "startswith (c # s) p" | "contains s p" by auto
    then show "\<exists>a b. c # s = a @ p @ b"
    proof cases
      case 1
      then obtain b where "c # s = p @ b" using startswith_iff by blast
      then have "c # s = [] @ p @ b" by simp
      then show ?thesis by blast
    next
      case 2
      then obtain a b where "s = a @ p @ b" using Cons.IH by blast
      then have "c # s = (c # a) @ p @ b" by simp
      then show ?thesis by blast
    qed
  next
    assume "\<exists>a b. c # s = a @ p @ b"
    then obtain a b where ab: "c # s = a @ p @ b" by blast
    show "contains (c # s) p"
    proof (cases a)
      case Nil
      with ab have "startswith (c # s) p" using startswith_iff by auto
      then show ?thesis by simp
    next
      case (Cons a0 as)
      with ab have "s = as @ p @ b" by simp
      then have "contains s p" using Cons.IH by blast
      then show ?thesis by simp
    qed
  qed
qed

lemma filter_if_plain:
  "filter_if p (\<lambda>v. Inr (P v)) qs =
     Inr (filter (\<lambda>l. case p of None \<Rightarrow> True | Some v \<Rightarrow> v = [] \<or> P v l) qs)"
  by (cases p) simp_all

lemma filter_if_lookup:
  assumes "well_formed conv p"
  shows "filter_if p (\<lambda>v. lookup (conv v) R) qs =
     Inr (filter (\<lambda>l. case p of None \<Rightarrow> True
            | Some v \<Rightarrow> v = [] \<or> (case conv v of None \<Rightarrow> False | Some x \<Rightarrow> R x l)) qs)"
  using assms by (cases p) (auto simp: well_formed_def lookup_def)

lemma listing_queryset_eq:
  assumes "well_formed to_decimal (query_params req ''min_price'')"
      and "well_formed to_decimal (query_params req ''max_price'')"
      and "well_formed to_int (query_params req ''guests'')"
  shows "ListingViewSet_get_queryset to_decimal to_int req db =
           Inr (filter (satisfies_given to_decimal to_int (query_params req)) (listings db))"
  unfolding ListingViewSet_get_queryset_def
  apply (simp only: filter_if_plain filter_if_lookup [OF assms(1)] filter_if_lookup [OF assms(2)]
     filter_if_lookup [OF assms(3)] and_then_Inr filter_filter)
  apply (rule arg_cong [where f=Inr])
  apply (rule filter_cong [OF refl])
  apply (simp only: satisfies_given_def conj_assoc)
  done

lemmas fixture_defs = austin_def hidden_def stay_def praise_def store_def request_of_def
  decimal_of_def int_of_def title_only_def comment_only_def

lemmas listing_query_defs = ListingViewSet_get_queryset_def and_then_def lookup_def
  icontains_def lower_def lower_char_def

section \<open>Listing search (C3)\<close>

text \<open>
  C3, as stated: the list of listings is exactly the active listings that satisfy every
  supplied filter. It fails for a parameter supplied as the empty string: with
  \<^verbatim>\<open>?type=\<close> the guard \<^verbatim>\<open>if listing_type:\<close> skips the filter, and a listing of type
  \<^verbatim>\<open>apartment\<close> is returned although its type is not the supplied one.
\<close>

theorem listing_filter_empty_type_counterexample:
  "ListingViewSet_get_queryset decimal_of int_of (request_of AnonymousUser [(''type'', '''')] []) store
     = Inr [austin]
   \<and> \<not> satisfies_supplied decimal_of int_of (map_of [(''type'', '''')]) austin"
  by (simp add: listing_query_defs fixture_defs satisfies_supplied_def)

text \<open>
  C3, amended: when each of \<^verbatim>\<open>min_price\<close>, \<^verbatim>\<open>max_price\<close> and \<^verbatim>\<open>guests\<close> is absent, empty
  or a value its field converts, the query set is the table of listings filtered by
  \<open>satisfies_given\<close>: the listing is active and satisfies every filter whose parameter is
  present and not empty (type by equality, location by case-insensitive substring, the
  price bounds inclusive, \<^verbatim>\<open>max_guests\<close> at least the requested number, search by
  case-insensitive substring in title, description or location). The list endpoint answers
  with that query set for every caller.
\<close>

theorem listing_filters_given:
  assumes "well_formed to_decimal (query_params req ''min_price'')"
      and "well_formed to_decimal (query_params req ''max_price'')"
      and "well_formed to_int (query_params req ''guests'')"
  shows "ListingViewSet_get_queryset to_decimal to_int req db =
           Inr (filter (satisfies_given to_decimal to_int (query_params req)) (listings db))
       \<and> ListingViewSet_GET_collection to_decimal to_int req db =
           Inr (Response (ListingsBody
                  (filter (satisfies_given to_decimal to_int (query_params req)) (listings db)))
                  HTTP_200_OK, db)
       \<and> set (filter (satisfies_given to_decimal to_int (query_params req)) (listings db)) =
           {l \<in> set (listings db). satisfies_given to_decimal to_int (query_params req) l}"
  using listing_queryset_eq [OF assms]
  by (simp add: ListingViewSet_GET_collection_def ListingViewSet_list_def dispatch_def
      check_permissions_def ListingViewSet_permission_classes_def SAFE_METHODS_def and_then_Inr)

theorem listing_filters_given_witness:
  "well_formed decimal_of (Some ''50'') \<and> well_formed decimal_of (Some ''150'')
   \<and> well_formed int_of None
   \<and> ListingViewSet_get_queryset decimal_of int_of
        (request_of AnonymousUser
           [(''min_price'', ''50''), (''max_price'', ''150''), (''location'', ''austin'')] [])
        store = Inr [austin]
   \<and> ListingViewSet_get_queryset decimal_of int_of
        (request_of AnonymousUser
           [(''min_price'', ''50''), (''max_price'', ''80''), (''location'', ''austin'')] [])
        store = Inr []"
proof -
  let ?r = "request_of AnonymousUser
    [(''min_price'', ''50''), (''max_price'', ''150''), (''location'', ''austin'')] []"
  have w1: "well_formed decimal_of (query_params ?r ''min_price'')"
    by (simp add: well_formed_def fixture_defs)
  have w2: "well_formed decimal_of (query_params ?r ''max_price'')"
    by (simp add: well_formed_def fixture_defs)
  have w3: "well_formed int_of (query_params ?r ''guests'')"
    by (simp add: well_formed_def fixture_defs)
  from listing_filters_given [OF w1 w2 w3, of store]
  have "ListingViewSet_get_queryset decimal_of int_of ?r store
      = Inr (filter (satisfies_given decimal_of int_of (query_params ?r)) (listings store))"
    by simp
  moreover have "filter (satisfies_given decimal_of int_of (query_params ?r)) (listings store) = [austin]"
    by (simp add: satisfies_given_def fixture_defs icontains_def lower_def lower_char_def)
  moreover have "ListingViewSet_get_queryset decimal_of int_of
        (request_of AnonymousUser
           [(''min_price'', ''50''), (''max_price'', ''80''), (''location'', ''austin'')] [])
        store = Inr []"
    by (simp add: listing_query_defs fixture_defs)
  ultimately show ?thesis
    by (simp add: well_formed_def decimal_of_def int_of_def)
qed

section \<open>Facts about the booking views\<close>

lemma gate_authenticated:
  "is_authenticated (user req) \<Longrightarrow> dispatch [IsAuthenticated] m req h = h"
  by (simp add: dispatch_def check_permissions_def and_then_Inr)

lemma gate_anonymous:
  "user req = AnonymousUser \<Longrightarrow> dispatch [IsAuthenticated] m req h = Inl NotPermitted"
  by (simp add: dispatch_def check_permissions_def and_then_Inl)

lemma booking_queryset_user:
  "user req = User u \<Longrightarrow>
     BookingViewSet_get_queryset False req db =
       remdups (filter (\<lambda>b. case related_listing db b of None \<Rightarrow> False
                              | Some l \<Rightarrow> guest b = u \<or> owner l = u) (bookings db))"
  by (simp add: BookingViewSet_get_queryset_def)

lemma filter_key_remdups_filter:
  assumes "filter P xs = [b]"
  shows "filter P (remdups (filter Q xs)) = (if Q b then [b] else [])"
proof -
  have "filter P (remdups (filter Q xs)) = remdups (filter Q (filter P xs))"
    by (simp add: remdups_filter conj_commute)
  then show ?thesis using assms by simp
qed

lemma booking_get_object_user:
  assumes "filter (\<lambda>x. booking_id x = pk) (bookings db) = [b]"
      and "related_listing db b = Some l"
      and "user req = User u"
  shows "BookingViewSet_get_object req pk db =
           (if guest b = u \<or> owner l = u then Inr b else Inl Http404)"
  using assms
  by (simp add: BookingViewSet_get_object_def get_object_or_404_def booking_queryset_user
      filter_key_remdups_filter)

lemma update_status_user:
  assumes "filter (\<lambda>x. booking_id x = pk) (bookings db) = [b]"
      and "related_listing db b = Some l"
      and "user req = User u"
  shows "BookingViewSet_PATCH_update_status req pk db =
     (if u = owner l then
        (case data req ''status'' of
           None \<Rightarrow> Inr (Response (ErrorBody ''Invalid status'') HTTP_400_BAD_REQUEST, db)
         | Some s \<Rightarrow>
             if s \<in> set valid_statuses
             then Inr (Response (BookingBody (b\<lparr>status := s\<rparr>)) HTTP_200_OK,
                       save_booking (b\<lparr>status := s\<rparr>) db)
             else Inr (Response (ErrorBody ''Invalid status'') HTTP_400_BAD_REQUEST, db))
      else if u = guest b then
        Inr (Response (ErrorBody ''Only listing owner can update booking status'')
               HTTP_403_FORBIDDEN, db)
      else Inl Http404)"
  using assms
  by (auto simp: BookingViewSet_PATCH_update_status_def BookingViewSet_permission_classes_def
      gate_authenticated BookingViewSet_update_status_def booking_get_object_user
      and_then_Inr and_then_Inl Let_def split: option.splits)

lemma update_status_anonymous:
  "user req = AnonymousUser \<Longrightarrow> BookingViewSet_PATCH_update_status req pk db = Inl NotPermitted"
  by (simp add: BookingViewSet_PATCH_update_status_def BookingViewSet_permission_classes_def
      gate_anonymous)

lemma save_booking_row:
  assumes "filter (\<lambda>x. booking_id x = pk) (bookings db) = [b]" and "booking_id b' = booking_id b"
  shows "filter (\<lambda>x. booking_id x = pk) (bookings (save_booking b' db)) = [b']"
proof -
  have "b \<in> set (filter (\<lambda>x. booking_id x = pk) (bookings db))"
    using assms(1) by simp
  then have pk: "booking_id b = pk" by simp
  have "filter (\<lambda>x. booking_id x = pk)
          (map (\<lambda>x. if booking_id x = pk then b' else x) xs)
        = map (\<lambda>x. b') (filter (\<lambda>x. booking_id x = pk) xs)" for xs
    using assms(2) pk by (induction xs) auto
  then show ?thesis
    using assms pk by (simp add: save_booking_def)
qed

lemmas booking_eval_defs = BookingViewSet_PATCH_update_status_def BookingViewSet_update_status_def
  BookingViewSet_get_object_def BookingViewSet_get_queryset_def get_object_or_404_def
  related_listing_def dispatch_def check_permissions_def BookingViewSet_permission_classes_def
  and_then_def valid_statuses_def save_booking_def Let_def

section \<open>Booking status (C5, C6, C10)\<close>

text \<open>
  C5: for a stored booking (the one row with key \<open>pk\<close>) and a request of the owner of its
  listing, a status value outside pending, confirmed, cancelled, completed (or no status
  value at all) is answered with the validation error, status 400 and the message
  \<^verbatim>\<open>Invalid status\<close>, and the database is returned as it was: the status of the booking is
  not changed and nothing is saved.
\<close>

theorem update_status_invalid_value:
  assumes "filter (\<lambda>x. booking_id x = pk) (bookings db) = [b]"
      and "related_listing db b = Some l"
      and "user req = User (owner l)"
      and "\<forall>s. data req ''status'' = Some s \<longrightarrow> s \<notin> set valid_statuses"
  shows "BookingViewSet_PATCH_update_status req pk db =
           Inr (Response (ErrorBody ''Invalid status'') HTTP_400_BAD_REQUEST, db)"
  using assms(4) update_status_user [OF assms(1-3)]
  by (auto split: option.splits)

theorem update_status_invalid_value_witness:
  "BookingViewSet_PATCH_update_status (request_of (User 10) [] [(''status'', ''archived'')]) 1 store =
     Inr (Response (ErrorBody ''Invalid status'') HTTP_400_BAD_REQUEST, store)
   \<and> BookingViewSet_PATCH_update_status (request_of (User 10) [] []) 1 store =
     Inr (Response (ErrorBody ''Invalid status'') HTTP_400_BAD_REQUEST, store)"
proof -
  have row: "filter (\<lambda>x. booking_id x = 1) (bookings store) = [stay]"
    by (simp add: fixture_defs)
  have rel: "related_listing store stay = Some austin"
    by (simp add: related_listing_def fixture_defs)
  have usr: "user (request_of (User 10) [] d) = User (owner austin)" for d
    by (simp add: fixture_defs)
  have bad1: "\<forall>s. data (request_of (User 10) [] [(''status'', ''archived'')]) ''status'' = Some s
                \<longrightarrow> s \<notin> set valid_statuses"
    by (simp add: fixture_defs valid_statuses_def)
  have bad2: "\<forall>s. data (request_of (User 10) [] []) ''status'' = Some s \<longrightarrow> s \<notin> set valid_statuses"
    by (simp add: fixture_defs)
  show ?thesis
    using update_status_invalid_value [OF row rel usr bad1]
          update_status_invalid_value [OF row rel usr bad2]
    by simp
qed

text \<open>
  C6, as stated: every principal other than the owner of the listing gets PermissionDenied.
  It fails for a user who is neither the guest nor the owner: \<^verbatim>\<open>get_object\<close> looks the
  booking up in \<^verbatim>\<open>get_queryset()\<close>, which holds only the bookings that the user made or
  that are on the user's listings, so the lookup raises Http404 before the ownership check.
\<close>

theorem update_status_third_party_counterexample:
  "BookingViewSet_PATCH_update_status (request_of (User 30) [] [(''status'', ''confirmed'')]) 1 store
     = Inl Http404"
  by (simp add: booking_eval_defs fixture_defs)

text \<open>
  C6, amended: for a stored booking, \<^verbatim>\<open>update_status\<close> called by the guest of the booking
  (not the owner of the listing) is answered 403 with the database unchanged; called by
  another authenticated user who is not the owner it fails with NotFound; called without
  authentication it is refused by the permission check; called by the owner with one of
  the four valid values it saves the new status (the stored row with this key is then the
  updated booking) and returns the updated booking.
\<close>

theorem update_status_owner_only:
  assumes "filter (\<lambda>x. booking_id x = pk) (bookings db) = [b]"
      and "related_listing db b = Some l"
  shows "(user req = User (guest b) \<and> guest b \<noteq> owner l \<longrightarrow>
            BookingViewSet_PATCH_update_status req pk db =
              Inr (Response (ErrorBody ''Only listing owner can update booking status'')
                     HTTP_403_FORBIDDEN, db))
       \<and> (user req = User u \<and> u \<noteq> guest b \<and> u \<noteq> owner l \<longrightarrow>
            BookingViewSet_PATCH_update_status req pk db = Inl Http404)
       \<and> (user req = AnonymousUser \<longrightarrow>
            BookingViewSet_PATCH_update_status req pk db = Inl NotPermitted)
       \<and> (user req = User (owner l) \<and> data req ''status'' = Some s \<and> s \<in> set valid_statuses \<longrightarrow>
            BookingViewSet_PATCH_update_status req pk db =
              Inr (Response (BookingBody (b\<lparr>status := s\<rparr>)) HTTP_200_OK,
                   save_booking (b\<lparr>status := s\<rparr>) db)
            \<and> filter (\<lambda>x. booking_id x = pk) (bookings (save_booking (b\<lparr>status := s\<rparr>) db))
                = [b\<lparr>status := s\<rparr>])"
proof (intro conjI impI)
  assume "user req = User (guest b) \<and> guest b \<noteq> owner l"
  then show "BookingViewSet_PATCH_update_status req pk db =
      Inr (Response (ErrorBody ''Only listing owner can update booking status'') HTTP_403_FORBIDDEN, db)"
    using update_status_user [OF assms, of req "guest b"] by simp
next
  assume "user req = User u \<and> u \<noteq> guest b \<and> u \<noteq> owner l"
  then show "BookingViewSet_PATCH_update_status req pk db = Inl Http404"
    using update_status_user [OF assms, of req u] by simp
next
  assume "user req = AnonymousUser"
  then show "BookingViewSet_PATCH_update_status req pk db = Inl NotPermitted"
    by (rule update_status_anonymous)
next
  assume a: "user req = User (owner l) \<and> data req ''status'' = Some s \<and> s \<in> set valid_statuses"
  then show "BookingViewSet_PATCH_update_status req pk db =
      Inr (Response (BookingBody (b\<lparr>status := s\<rparr>)) HTTP_200_OK, save_booking (b\<lparr>status := s\<rparr>) db)"
    using update_status_user [OF assms, of req "owner l"] by simp
  show "filter (\<lambda>x. booking_id x = pk) (bookings (save_booking (b\<lparr>status := s\<rparr>) db)) = [b\<lparr>status := s\<rparr>]"
    using save_booking_row [OF assms(1), of "b\<lparr>status := s\<rparr>"] by simp
qed

theorem update_status_owner_only_witness:
  "BookingViewSet_PATCH_update_status (request_of (User 20) [] [(''status'', ''cancelled'')]) 1 store =
     Inr (Response (ErrorBody ''Only listing owner can update booking status'') HTTP_403_FORBIDDEN, store)
   \<and> BookingViewSet_PATCH_update_status (request_of (User 30) [] [(''status'', ''cancelled'')]) 1 store =
     Inl Http404
   \<and> BookingViewSet_PATCH_update_status (request_of AnonymousUser [] [(''status'', ''cancelled'')]) 1 store =
     Inl NotPermitted
   \<and> BookingViewSet_PATCH_update_status (request_of (User 10) [] [(''status'', ''confirmed'')]) 1 store =
     Inr (Response (BookingBody (stay\<lparr>status := ''confirmed''\<rparr>)) HTTP_200_OK,
          store\<lparr>bookings := [stay\<lparr>status := ''confirmed''\<rparr>]\<rparr>)"
proof -
  have row: "filter (\<lambda>x. booking_id x = 1) (bookings store) = [stay]"
    by (simp add: fixture_defs)
  have rel: "related_listing store stay = Some austin"
    by (simp add: related_listing_def fixture_defs)
  have sv: "save_booking (stay\<lparr>status := ''confirmed''\<rparr>) store
      = store\<lparr>bookings := [stay\<lparr>status := ''confirmed''\<rparr>]\<rparr>"
    by (simp add: save_booking_def fixture_defs)
  have g: "guest stay = 20" "owner austin = 10" by (simp_all add: fixture_defs)
  show ?thesis
    using update_status_owner_only [OF row rel, of "request_of (User 20) [] [(''status'', ''cancelled'')]" 30 "''confirmed''"]
          update_status_owner_only [OF row rel, of "request_of (User 30) [] [(''status'', ''cancelled'')]" 30 "''confirmed''"]
          update_status_owner_only [OF row rel, of "request_of AnonymousUser [] [(''status'', ''cancelled'')]" 30 "''confirmed''"]
          update_status_owner_only [OF row rel, of "request_of (User 10) [] [(''status'', ''confirmed'')]" 30 "''confirmed''"]
    by (simp add: g sv request_of_def valid_statuses_def)
qed

text \<open>
  C10, as stated: every request by a principal other than the owner of the listing results
  in PermissionDenied, whatever the status value. It fails for a user who cannot see the
  booking: with an invalid status value the result is Http404, not the 403 answer.
\<close>

theorem update_status_invalid_third_party_counterexample:
  "BookingViewSet_PATCH_update_status (request_of (User 30) [] [(''status'', ''archived'')]) 1 store
     = Inl Http404
   \<and> BookingViewSet_PATCH_update_status (request_of (User 30) [] [(''status'', ''archived'')]) 1 store
     \<noteq> Inr (Response (ErrorBody ''Only listing owner can update booking status'') HTTP_403_FORBIDDEN, store)"
  by (simp add: booking_eval_defs fixture_defs)

text \<open>
  C10, amended: for a stored booking and a request by anyone but the owner of the listing,
  the result does not depend on the status value: refusal by the permission check for an
  unauthenticated caller, the 403 answer for the guest of the booking, NotFound for every
  other user. The validation error (400, \<^verbatim>\<open>Invalid status\<close>) is therefore only ever
  answered to the owner of the listing.
\<close>

theorem update_status_check_order:
  assumes "filter (\<lambda>x. booking_id x = pk) (bookings db) = [b]"
      and "related_listing db b = Some l"
  shows "(user req \<noteq> User (owner l) \<longrightarrow>
            BookingViewSet_PATCH_update_status req pk db =
              (case user req of
                 AnonymousUser \<Rightarrow> Inl NotPermitted
               | User u \<Rightarrow>
                   if u = guest b
                   then Inr (Response (ErrorBody ''Only listing owner can update booking status'')
                               HTTP_403_FORBIDDEN, db)
                   else Inl Http404))
       \<and> (BookingViewSet_PATCH_update_status req pk db =
              Inr (Response (ErrorBody ''Invalid status'') HTTP_400_BAD_REQUEST, db)
            \<longrightarrow> user req = User (owner l))"
proof (cases "user req")
  case AnonymousUser
  then show ?thesis using update_status_anonymous [of req pk db] by simp
next
  case (User u)
  then show ?thesis using update_status_user [OF assms, of req u]
    by (auto simp: HTTP_400_BAD_REQUEST_def HTTP_403_FORBIDDEN_def)
qed

theorem update_status_check_order_witness:
  "BookingViewSet_PATCH_update_status (request_of (User 20) [] [(''status'', ''archived'')]) 1 store =
     Inr (Response (ErrorBody ''Only listing owner can update booking status'') HTTP_403_FORBIDDEN, store)
   \<and> BookingViewSet_PATCH_update_status (request_of (User 20) [] [(''status'', ''confirmed'')]) 1 store =
     Inr (Response (ErrorBody ''Only listing owner can update booking status'') HTTP_403_FORBIDDEN, store)
   \<and> User 20 \<noteq> User (owner austin)"
proof -
  have row: "filter (\<lambda>x. booking_id x = 1) (bookings store) = [stay]"
    by (simp add: fixture_defs)
  have rel: "related_listing store stay = Some austin"
    by (simp add: related_listing_def fixture_defs)
  have g: "guest stay = 20" "owner austin = 10" by (simp_all add: fixture_defs)
  show ?thesis
    using update_status_check_order [OF row rel, of "request_of (User 20) [] [(''status'', ''archived'')]"]
          update_status_check_order [OF row rel, of "request_of (User 20) [] [(''status'', ''confirmed'')]"]
    by (simp add: g request_of_def)
qed

section \<open>Booking list and creation (C4, C8)\<close>

text \<open>
  C4, as stated: for an unauthenticated caller the list of bookings is the empty result.
  It fails at the endpoint: \<^verbatim>\<open>permission_classes = [IsAuthenticated]\<close> refuses the request
  before \<^verbatim>\<open>get_queryset\<close> runs, so the caller gets the refusal and not an empty list.
\<close>

theorem booking_list_anonymous_counterexample:
  "BookingViewSet_GET_collection (request_of AnonymousUser [] []) store = Inl NotPermitted
   \<and> BookingViewSet_GET_collection (request_of AnonymousUser [] []) store
       \<noteq> Inr (Response (BookingsBody []) HTTP_200_OK, store)"
  by (simp add: BookingViewSet_GET_collection_def BookingViewSet_permission_classes_def
      gate_anonymous fixture_defs)

text \<open>
  C4, amended: when every booking references a stored listing, the list of bookings for an
  authenticated user \<open>u\<close> is answered with a query set whose elements are exactly the
  bookings whose guest is \<open>u\<close> together with the bookings whose listing is owned by \<open>u\<close>,
  none of them twice. For an unauthenticated user \<^verbatim>\<open>get_queryset\<close> itself is empty, and
  the request is refused by the permission check.
\<close>

theorem booking_list_visible:
  assumes "\<forall>b \<in> set (bookings db). related_listing db b \<noteq> None"
  shows "(user req = User u \<longrightarrow>
            BookingViewSet_GET_collection req db =
              Inr (Response (BookingsBody (BookingViewSet_get_queryset False req db)) HTTP_200_OK, db)
            \<and> set (BookingViewSet_get_queryset False req db) =
                {b \<in> set (bookings db). guest b = u}
                \<union> {b \<in> set (bookings db). map_option owner (related_listing db b) = Some u}
            \<and> distinct (BookingViewSet_get_queryset False req db))
       \<and> (user req = AnonymousUser \<longrightarrow>
            BookingViewSet_get_queryset False req db = []
            \<and> BookingViewSet_GET_collection req db = Inl NotPermitted)"
proof (intro conjI impI)
  assume u: "user req = User u"
  then show "BookingViewSet_GET_collection req db =
      Inr (Response (BookingsBody (BookingViewSet_get_queryset False req db)) HTTP_200_OK, db)"
    by (simp add: BookingViewSet_GET_collection_def BookingViewSet_permission_classes_def
        gate_authenticated BookingViewSet_list_def)
  show "set (BookingViewSet_get_queryset False req db) =
      {b \<in> set (bookings db). guest b = u}
      \<union> {b \<in> set (bookings db). map_option owner (related_listing db b) = Some u}"
    using assms by (auto simp: booking_queryset_user [OF u] split: option.splits)
  show "distinct (BookingViewSet_get_queryset False req db)"
    by (simp add: booking_queryset_user [OF u])
next
  assume a: "user req = AnonymousUser"
  then show "BookingViewSet_get_queryset False req db = []"
    by (simp add: BookingViewSet_get_queryset_def)
  from a show "BookingViewSet_GET_collection req db = Inl NotPermitted"
    by (simp add: BookingViewSet_GET_collection_def BookingViewSet_permission_classes_def
        gate_anonymous)
qed

theorem booking_list_visible_witness:
  "BookingViewSet_GET_collection (request_of (User 10) [] []) store =
       Inr (Response (BookingsBody [stay]) HTTP_200_OK, store)
   \<and> BookingViewSet_GET_collection (request_of (User 20) [] []) store =
       Inr (Response (BookingsBody [stay]) HTTP_200_OK, store)
   \<and> BookingViewSet_GET_collection (request_of (User 30) [] []) store =
       Inr (Response (BookingsBody []) HTTP_200_OK, store)
   \<and> BookingViewSet_get_queryset False (request_of AnonymousUser [] []) store = []"
proof -
  have fk: "\<forall>b \<in> set (bookings store). related_listing store b \<noteq> None"
    by (simp add: related_listing_def fixture_defs)
  have q: "BookingViewSet_get_queryset False (request_of (User 10) [] []) store = [stay]"
          "BookingViewSet_get_queryset False (request_of (User 20) [] []) store = [stay]"
          "BookingViewSet_get_queryset False (request_of (User 30) [] []) store = []"
    by (simp_all add: BookingViewSet_get_queryset_def related_listing_def fixture_defs)
  show ?thesis
    using booking_list_visible [OF fk, of "request_of (User 10) [] []" 10]
          booking_list_visible [OF fk, of "request_of (User 20) [] []" 20]
          booking_list_visible [OF fk, of "request_of (User 30) [] []" 30]
          booking_list_visible [OF fk, of "request_of AnonymousUser [] []" 0]
    by (simp add: q) (simp add: request_of_def)
qed

text \<open>
  C8: for every validated payload and every authenticated user \<open>u\<close>, \<^verbatim>\<open>perform_create\<close>
  stores a booking whose guest is \<open>u\<close>, whatever guest the payload named, and the create
  endpoint answers 201 with that booking when the payload validates.
\<close>

theorem booking_create_guest_is_caller:
  assumes "user req = User u"
  shows "\<exists>created db'.
           BookingViewSet_perform_create req validated db = Inr (created, db')
           \<and> guest created = u
           \<and> created \<in> set (bookings db')
           \<and> (validate (data req) = Some validated \<longrightarrow>
                BookingViewSet_POST_collection validate req db =
                  Inr (Response (BookingBody created) HTTP_201_CREATED, db'))"
  using assms
  by (simp add: BookingViewSet_perform_create_def BookingViewSet_POST_collection_def
      BookingViewSet_create_def BookingViewSet_permission_classes_def gate_authenticated
      and_then_Inr Let_def)

theorem booking_create_guest_is_caller_witness:
  "\<exists>created db'.
     BookingViewSet_perform_create (request_of (User 20) [] [(''guest'', ''99'')])
        \<lparr>booking_id = 0, booking_listing = 1, guest = 99, status = ''pending''\<rparr> store
       = Inr (created, db')
     \<and> guest created = 20 \<and> guest created \<noteq> 99 \<and> created \<in> set (bookings db')"
proof -
  have u: "user (request_of (User 20) [] [(''guest'', ''99'')]) = User 20"
    by (simp add: request_of_def)
  from booking_create_guest_is_caller [OF u,
      of "\<lparr>booking_id = 0, booking_listing = 1, guest = 99, status = ''pending''\<rparr>" store
         "\<lambda>d. None"]
  show ?thesis by auto
qed

section \<open>Ownership checks of listings and reviews (C1, C7)\<close>

lemmas listing_view_defs = ListingViewSet_detail_def ListingViewSet_update_def
  ListingViewSet_destroy_def ListingViewSet_retrieve_def ListingViewSet_reviews_def
  ListingViewSet_bookings_def ListingViewSet_get_object_def ListingViewSet_perform_update_def
  ListingViewSet_perform_destroy_def ListingViewSet_permission_classes_def
  get_object_or_404_def dispatch_def check_permissions_def SAFE_METHODS_def Let_def

lemmas review_view_defs = ReviewViewSet_PUT_detail_def ReviewViewSet_DELETE_detail_def
  ReviewViewSet_update_def ReviewViewSet_destroy_def ReviewViewSet_get_object_def
  ReviewViewSet_get_queryset_def ReviewViewSet_perform_update_def
  ReviewViewSet_perform_destroy_def ReviewViewSet_permission_classes_def
  get_object_or_404_def dispatch_def check_permissions_def and_then_def lookup_def Let_def

text \<open>
  For every request by someone who is not the owner (the reviewer), the hooks return a
  response object instead of raising, and leave the database as it is.
\<close>

lemma listing_perform_update_other:
  "user req \<noteq> User (owner (bound_instance ser)) \<Longrightarrow>
     ListingViewSet_perform_update req ser db =
       (Some (Response (ErrorBody ''You can only update your own listings'') HTTP_403_FORBIDDEN),
        bound_instance ser, db)"
  by (auto simp: ListingViewSet_perform_update_def)

lemma listing_perform_destroy_other:
  "user req \<noteq> User (owner inst) \<Longrightarrow>
     ListingViewSet_perform_destroy req inst db =
       (Some (Response (ErrorBody ''You can only delete your own listings'') HTTP_403_FORBIDDEN), db)"
  by (auto simp: ListingViewSet_perform_destroy_def)

lemma review_perform_update_other:
  "user req \<noteq> User (reviewer (bound_instance ser)) \<Longrightarrow>
     ReviewViewSet_perform_update req ser db =
       (Some (Response (ErrorBody ''You can only update your own reviews'') HTTP_403_FORBIDDEN),
        bound_instance ser, db)"
  by (auto simp: ReviewViewSet_perform_update_def)

lemma review_perform_destroy_other:
  "user req \<noteq> User (reviewer inst) \<Longrightarrow>
     ReviewViewSet_perform_destroy req inst db =
       (Some (Response (ErrorBody ''You can only delete your own reviews'') HTTP_403_FORBIDDEN), db)"
  by (auto simp: ReviewViewSet_perform_destroy_def)

text \<open>
  C1 at a failing input: user 20 is authenticated and is not the owner (user 10) of listing 1.
  \<^verbatim>\<open>perform_update\<close> builds the 403 response and returns it, the inherited \<^verbatim>\<open>update\<close>
  drops what the hook returns, and the caller is answered 200 with the listing; likewise
  the delete is answered 204. The database is unchanged in both cases: the listing is
  neither updated nor deleted, but no failure is reported.
\<close>

theorem listing_update_by_other_user_answers_ok:
  "ListingViewSet_perform_update (request_of (User 20) [] [(''title'', ''Taken'')])
      \<lparr>bound_instance = austin,
       validated_data = \<lparr>given_title = Some ''Taken'', given_description = None,
          given_location = None, given_listing_type = None, given_price_per_night = None,
          given_max_guests = None, given_is_active = None\<rparr>\<rparr> store
     = (Some (Response (ErrorBody ''You can only update your own listings'') HTTP_403_FORBIDDEN),
        austin, store)
   \<and> ListingViewSet_detail decimal_of int_of title_only Update
        (request_of (User 20) [] [(''title'', ''Taken'')]) 1 store
     = Inr (Response (ListingBody austin) HTTP_200_OK, store)
   \<and> ListingViewSet_detail decimal_of int_of title_only Destroy
        (request_of (User 20) [] []) 1 store
     = Inr (Response NoContent HTTP_204_NO_CONTENT, store)"
  by (simp add: listing_view_defs listing_query_defs fixture_defs)

text \<open>
  C7 at a failing input: user 30 is authenticated and is not the reviewer (user 20) of
  review 1. The update is answered 200 with the review and the delete 204; the review is
  unchanged and still stored, but no failure is reported. The reviewer's own update is
  saved.
\<close>

theorem review_update_by_other_user_answers_ok:
  "ReviewViewSet_PUT_detail int_of comment_only
        (request_of (User 30) [] [(''comment'', ''Awful'')]) 1 store
     = Inr (Response (ReviewBody praise) HTTP_200_OK, store)
   \<and> ReviewViewSet_DELETE_detail int_of (request_of (User 30) [] []) 1 store
     = Inr (Response NoContent HTTP_204_NO_CONTENT, store)
   \<and> ReviewViewSet_PUT_detail int_of comment_only
        (request_of (User 20) [] [(''comment'', ''Good'')]) 1 store
     = Inr (Response (ReviewBody (praise\<lparr>comment := ''Good''\<rparr>)) HTTP_200_OK,
            store\<lparr>reviews := [praise\<lparr>comment := ''Good''\<rparr>]\<rparr>)"
  by (simp add: review_view_defs fixture_defs assign_review_def or_keep_def save_review_def)

section \<open>Access without authentication (C2)\<close>

lemma filter_if_lookup_error:
  "filter_if p (\<lambda>v. lookup (conv v) R) qs = Inl e \<Longrightarrow> e = BadLookupValue"
  by (cases p) (auto simp: lookup_def split: if_splits option.splits)

lemma listing_queryset_error:
  assumes "ListingViewSet_get_queryset to_decimal to_int req db = Inl e"
  shows "e = BadLookupValue"
  using assms unfolding ListingViewSet_get_queryset_def
  by (simp only: filter_if_plain and_then_Inr)
     (auto simp: and_then_def filter_if_plain split: sum.splits dest: filter_if_lookup_error)

lemma listing_get_object_error:
  assumes "ListingViewSet_get_object to_decimal to_int req pk db = Inl e"
  shows "e \<noteq> NotPermitted"
  using assms
  by (auto simp: ListingViewSet_get_object_def and_then_def get_object_or_404_def
      split: sum.splits list.splits dest: listing_queryset_error)

lemma gate_read_only:
  "m \<in> set SAFE_METHODS \<Longrightarrow> dispatch [IsAuthenticatedOrReadOnly] m req h = h"
  by (simp add: dispatch_def check_permissions_def and_then_Inr)

text \<open>
  C2, as stated: an unauthenticated caller can read reviews and gets an empty list of
  bookings. It fails on the review and booking view sets: both declare
  \<^verbatim>\<open>permission_classes = [IsAuthenticated]\<close>, so the list of reviews of an unauthenticated
  caller is refused.
\<close>

theorem review_list_anonymous_counterexample:
  "ReviewViewSet_GET_collection int_of (request_of AnonymousUser [] []) store = Inl NotPermitted"
  by (simp add: ReviewViewSet_GET_collection_def ReviewViewSet_permission_classes_def
      gate_anonymous request_of_def)

text \<open>
  C2, amended: for an unauthenticated caller the reads of the listing view set (list,
  retrieve, and the reviews of a listing) pass the permission check and never end in a
  permission error; the reads of the review view set and the list of bookings are refused
  by the permission check. \<^verbatim>\<open>BookingViewSet.get_queryset\<close> itself is empty for an
  unauthenticated user.
\<close>

theorem anonymous_access:
  assumes "user req = AnonymousUser"
  shows "ListingViewSet_GET_collection to_decimal to_int req db
           = ListingViewSet_list to_decimal to_int req db
       \<and> ListingViewSet_GET_collection to_decimal to_int req db \<noteq> Inl NotPermitted
       \<and> ListingViewSet_detail to_decimal to_int validate Retrieve req pk db
           = ListingViewSet_retrieve to_decimal to_int req pk db
       \<and> ListingViewSet_detail to_decimal to_int validate Retrieve req pk db \<noteq> Inl NotPermitted
       \<and> ListingViewSet_detail to_decimal to_int validate Reviews req pk db
           = ListingViewSet_reviews to_decimal to_int req pk db
       \<and> ListingViewSet_detail to_decimal to_int validate Reviews req pk db \<noteq> Inl NotPermitted
       \<and> ReviewViewSet_GET_collection to_int req db = Inl NotPermitted
       \<and> ReviewViewSet_GET_detail to_int req pk db = Inl NotPermitted
       \<and> BookingViewSet_GET_collection req db = Inl NotPermitted
       \<and> BookingViewSet_get_queryset False req db = []"
proof -
  have l: "ListingViewSet_GET_collection to_decimal to_int req db
             = ListingViewSet_list to_decimal to_int req db"
    by (simp add: ListingViewSet_GET_collection_def ListingViewSet_permission_classes_def
        gate_read_only SAFE_METHODS_def)
  have "ListingViewSet_list to_decimal to_int req db \<noteq> Inl NotPermitted"
    by (auto simp: ListingViewSet_list_def and_then_def split: sum.splits
        dest: listing_queryset_error)
  with l have l': "ListingViewSet_GET_collection to_decimal to_int req db \<noteq> Inl NotPermitted"
    by simp
  have r: "ListingViewSet_detail to_decimal to_int validate Retrieve req pk db
             = ListingViewSet_retrieve to_decimal to_int req pk db"
    by (simp add: ListingViewSet_detail_def ListingViewSet_permission_classes_def
        gate_read_only SAFE_METHODS_def)
  have "ListingViewSet_retrieve to_decimal to_int req pk db \<noteq> Inl NotPermitted"
    by (auto simp: ListingViewSet_retrieve_def and_then_def split: sum.splits
        dest: listing_get_object_error)
  with r have r': "ListingViewSet_detail to_decimal to_int validate Retrieve req pk db \<noteq> Inl NotPermitted"
    by simp
  have v: "ListingViewSet_detail to_decimal to_int validate Reviews req pk db
             = ListingViewSet_reviews to_decimal to_int req pk db"
    by (simp add: ListingViewSet_detail_def ListingViewSet_permission_classes_def
        gate_read_only SAFE_METHODS_def)
  have "ListingViewSet_reviews to_decimal to_int req pk db \<noteq> Inl NotPermitted"
    by (auto simp: ListingViewSet_reviews_def and_then_def split: sum.splits
        dest: listing_get_object_error)
  with v have v': "ListingViewSet_detail to_decimal to_int validate Reviews req pk db \<noteq> Inl NotPermitted"
    by simp
  have rv: "ReviewViewSet_GET_collection to_int req db = Inl NotPermitted"
           "ReviewViewSet_GET_detail to_int req pk db = Inl NotPermitted"
    using assms
    by (simp_all add: ReviewViewSet_GET_collection_def ReviewViewSet_GET_detail_def
        ReviewViewSet_permission_classes_def gate_anonymous)
  have b: "BookingViewSet_GET_collection req db = Inl NotPermitted"
    using assms
    by (simp add: BookingViewSet_GET_collection_def BookingViewSet_permission_classes_def
        gate_anonymous)
  have q: "BookingViewSet_get_queryset False req db = []"
    using assms by (simp add: BookingViewSet_get_queryset_def)
  from l l' r r' v v' rv b q show ?thesis by simp
qed

theorem anonymous_access_witness:
  "ListingViewSet_GET_collection decimal_of int_of (request_of AnonymousUser [] []) store
     = Inr (Response (ListingsBody [austin]) HTTP_200_OK, store)
   \<and> ListingViewSet_detail decimal_of int_of title_only Retrieve (request_of AnonymousUser [] []) 1 store
     = Inr (Response (ListingBody austin) HTTP_200_OK, store)
   \<and> ListingViewSet_detail decimal_of int_of title_only Reviews (request_of AnonymousUser [] []) 1 store
     = Inr (Response (ReviewsBody [praise]) HTTP_200_OK, store)
   \<and> ReviewViewSet_GET_detail int_of (request_of AnonymousUser [] []) 1 store = Inl NotPermitted
   \<and> BookingViewSet_get_queryset False (request_of AnonymousUser [] []) store = []"
proof -
  have a: "user (request_of AnonymousUser [] []) = AnonymousUser"
    by (simp add: request_of_def)
  have q: "ListingViewSet_get_queryset decimal_of int_of (request_of AnonymousUser [] []) store
             = Inr [austin]"
    by (simp add: listing_query_defs fixture_defs)
  have e: "ListingViewSet_list decimal_of int_of (request_of AnonymousUser [] []) store
             = Inr (Response (ListingsBody [austin]) HTTP_200_OK, store)"
          "ListingViewSet_retrieve decimal_of int_of (request_of AnonymousUser [] []) 1 store
             = Inr (Response (ListingBody austin) HTTP_200_OK, store)"
          "ListingViewSet_reviews decimal_of int_of (request_of AnonymousUser [] []) 1 store
             = Inr (Response (ReviewsBody [praise]) HTTP_200_OK, store)"
    by (simp_all add: ListingViewSet_list_def ListingViewSet_retrieve_def ListingViewSet_reviews_def
        ListingViewSet_get_object_def q and_then_Inr get_object_or_404_def)
       (simp_all add: fixture_defs)
  show ?thesis
    using anonymous_access [OF a, of decimal_of int_of store title_only 1] e
    by simp
qed

section \<open>Inactive listings (C9)\<close>

lemma listing_get_object_inactive:
  assumes "\<forall>l \<in> set (listings db). listing_id l = pk \<longrightarrow> \<not> is_active l"
      and "well_formed to_decimal (query_params req ''min_price'')"
      and "well_formed to_decimal (query_params req ''max_price'')"
      and "well_formed to_int (query_params req ''guests'')"
  shows "ListingViewSet_get_object to_decimal to_int req pk db = Inl Http404"
proof -
  have "filter (\<lambda>x. listing_id x = pk)
          (filter (satisfies_given to_decimal to_int (query_params req)) (listings db)) = []"
    using assms(1) by (auto simp: filter_empty_conv satisfies_given_def)
  then show ?thesis
    by (simp add: ListingViewSet_get_object_def listing_queryset_eq [OF assms(2-4)]
        and_then_Inr get_object_or_404_def)
qed

text \<open>
  C9, as stated: for an inactive listing every operation addressed by its key fails with
  NotFound for every principal. It fails for an unauthenticated caller of update or
  delete: the permission check of \<^verbatim>\<open>IsAuthenticatedOrReadOnly\<close> refuses the request
  before the listing is looked up.
\<close>

theorem inactive_listing_anonymous_update_counterexample:
  "ListingViewSet_detail decimal_of int_of title_only Update
     (request_of AnonymousUser [] [(''title'', ''Taken'')]) 2 store = Inl NotPermitted
   \<and> is_active hidden = False \<and> listing_id hidden = 2"
  by (simp add: ListingViewSet_detail_def ListingViewSet_permission_classes_def dispatch_def
      check_permissions_def SAFE_METHODS_def and_then_Inl fixture_defs)

lemma listing_write_anonymous_refused:
  assumes "\<not> is_authenticated (user req)" and "a \<in> {Update, PartialUpdate, Destroy}"
  shows "ListingViewSet_detail to_decimal to_int validate a req pk db = Inl NotPermitted"
  using assms
  by (auto simp: ListingViewSet_detail_def ListingViewSet_permission_classes_def dispatch_def
      check_permissions_def SAFE_METHODS_def and_then_Inl)

lemma listing_detail_inactive:
  assumes "\<forall>l \<in> set (listings db). listing_id l = pk \<longrightarrow> \<not> is_active l"
      and "well_formed to_decimal (query_params req ''min_price'')"
      and "well_formed to_decimal (query_params req ''max_price'')"
      and "well_formed to_int (query_params req ''guests'')"
      and "is_authenticated (user req) \<or> listing_detail_method a \<in> set SAFE_METHODS"
  shows "ListingViewSet_detail to_decimal to_int validate a req pk db = Inl Http404"
proof -
  have g: "ListingViewSet_get_object to_decimal to_int req pk db = Inl Http404"
    by (rule listing_get_object_inactive [OF assms(1-4)])
  have d: "dispatch ListingViewSet_permission_classes (listing_detail_method a) req h = h" for h
    using assms(5)
    by (auto simp: dispatch_def check_permissions_def ListingViewSet_permission_classes_def
        and_then_Inr)
  show ?thesis
    unfolding ListingViewSet_detail_def d
    by (cases a)
       (simp_all add: ListingViewSet_retrieve_def ListingViewSet_update_def
          ListingViewSet_destroy_def ListingViewSet_reviews_def ListingViewSet_bookings_def
          g and_then_Inl)
qed

text \<open>
  C9, amended: when no active listing has the key, every operation addressed by that key
  (retrieve, update, partial update, delete, the reviews and the bookings of the listing)
  fails with NotFound for every caller who passes the permission check (anyone for the
  reads, an authenticated user for the writes), the owner included, provided the numeric
  filter parameters of the request are absent, empty or convertible: the lookup goes
  through \<^verbatim>\<open>get_queryset\<close>, which keeps active listings only. An update, partial
  update or delete by an unauthenticated caller is refused by the permission check before
  the lookup, whatever the listing and the parameters. The two cases cover every request
  to these routes: the writes are exactly the routes whose method is not a safe one.
\<close>

theorem inactive_listing_not_found:
  "((\<forall>l \<in> set (listings db). listing_id l = pk \<longrightarrow> \<not> is_active l)
      \<and> well_formed to_decimal (query_params req ''min_price'')
      \<and> well_formed to_decimal (query_params req ''max_price'')
      \<and> well_formed to_int (query_params req ''guests'')
      \<and> (is_authenticated (user req) \<or> listing_detail_method a \<in> set SAFE_METHODS)
     \<longrightarrow> ListingViewSet_detail to_decimal to_int validate a req pk db = Inl Http404)
   \<and> (\<not> is_authenticated (user req) \<and> a \<in> {Update, PartialUpdate, Destroy}
     \<longrightarrow> ListingViewSet_detail to_decimal to_int validate a req pk db = Inl NotPermitted)
   \<and> (listing_detail_method a \<in> set SAFE_METHODS \<longleftrightarrow> a \<notin> {Update, PartialUpdate, Destroy})"
proof (intro conjI impI)
  assume h: "(\<forall>l \<in> set (listings db). listing_id l = pk \<longrightarrow> \<not> is_active l)
      \<and> well_formed to_decimal (query_params req ''min_price'')
      \<and> well_formed to_decimal (query_params req ''max_price'')
      \<and> well_formed to_int (query_params req ''guests'')
      \<and> (is_authenticated (user req) \<or> listing_detail_method a \<in> set SAFE_METHODS)"
  then show "ListingViewSet_detail to_decimal to_int validate a req pk db = Inl Http404"
    by (intro listing_detail_inactive) blast+
next
  assume "\<not> is_authenticated (user req) \<and> a \<in> {Update, PartialUpdate, Destroy}"
  then show "ListingViewSet_detail to_decimal to_int validate a req pk db = Inl NotPermitted"
    by (intro listing_write_anonymous_refused) blast+
next
  show "listing_detail_method a \<in> set SAFE_METHODS \<longleftrightarrow> a \<notin> {Update, PartialUpdate, Destroy}"
    by (cases a) (simp_all add: SAFE_METHODS_def)
qed

theorem inactive_listing_not_found_witness:
  "ListingViewSet_detail decimal_of int_of title_only Retrieve (request_of (User 10) [] []) 2 store
     = Inl Http404
   \<and> ListingViewSet_detail decimal_of int_of title_only Update
       (request_of (User 10) [] [(''title'', ''Open again'')]) 2 store = Inl Http404
   \<and> ListingViewSet_detail decimal_of int_of title_only PartialUpdate
       (request_of (User 10) [] [(''title'', ''Open again'')]) 2 store = Inl Http404
   \<and> ListingViewSet_detail decimal_of int_of title_only Destroy (request_of (User 10) [] []) 2 store
     = Inl Http404
   \<and> ListingViewSet_detail decimal_of int_of title_only Bookings (request_of (User 10) [] []) 2 store
     = Inl Http404
   \<and> ListingViewSet_detail decimal_of int_of title_only Reviews (request_of AnonymousUser [] []) 2 store
     = Inl Http404
   \<and> ListingViewSet_detail decimal_of int_of title_only PartialUpdate
       (request_of AnonymousUser [] [(''title'', ''Open again'')]) 2 store = Inl NotPermitted
   \<and> ListingViewSet_detail decimal_of int_of title_only Destroy (request_of AnonymousUser [] []) 2 store
     = Inl NotPermitted
   \<and> owner hidden = 10 \<and> hidden \<in> set (listings store)"
proof -
  have i: "\<forall>l \<in> set (listings store). listing_id l = 2 \<longrightarrow> \<not> is_active l"
    by (simp add: fixture_defs)
  have w: "well_formed conv (query_params (request_of u [] d) k)"
    for conv :: "string \<Rightarrow> 'v option" and u d k
    by (simp add: well_formed_def request_of_def)
  have o: "is_authenticated (user (request_of (User 10) [] d))" for d
    by (simp add: request_of_def)
  have n: "\<not> is_authenticated (user (request_of AnonymousUser [] d))" for d
    by (simp add: request_of_def)
  have s: "listing_detail_method Reviews \<in> set SAFE_METHODS"
    by (simp add: SAFE_METHODS_def)
  have found: "ListingViewSet_detail decimal_of int_of title_only a (request_of (User 10) [] d) 2 store
      = Inl Http404" for a d
    by (rule inactive_listing_not_found [THEN conjunct1, THEN mp]) (intro conjI i w disjI1 o)
  have reviews: "ListingViewSet_detail decimal_of int_of title_only Reviews
      (request_of AnonymousUser [] []) 2 store = Inl Http404"
    by (rule inactive_listing_not_found [THEN conjunct1, THEN mp]) (intro conjI i w disjI2 s)
  have refused: "a \<in> {Update, PartialUpdate, Destroy} \<Longrightarrow>
      ListingViewSet_detail decimal_of int_of title_only a (request_of AnonymousUser [] d) 2 store
        = Inl NotPermitted" for a d
    by (rule inactive_listing_not_found [THEN conjunct2, THEN conjunct1, THEN mp]) (intro conjI n)
  have rows: "owner hidden = 10 \<and> hidden \<in> set (listings store)"
    by (simp add: fixture_defs)
  show ?thesis
    by (intro conjI found reviews refused conjunct1 [OF rows] conjunct2 [OF rows]) simp_all
qed

end
